theory Spec2Isabelle
  imports Main
begin

section \<open>Values that cross the API boundary\<close>

text \<open>
  The embedding follows the class \<open>ApiExtension\<close> of
  \<open>mind-agents/src/modules/tools/skills/common.skills.ts\<close>. Values typed \<open>any\<close> in the
  source are opaque strings here. Clock readings (\<open>Date.now()\<close>, \<open>new Date()\<close>) are
  integers in milliseconds; the clock moves only while an awaited call is outstanding.
\<close>

type_synonym payload = string
type_synonym millis = int

text \<open>A thrown JavaScript value: an \<open>Error\<close> object with its message, or any other value
  with its \<open>String(err)\<close> rendering.\<close>

datatype thrown = ErrorObject string | OtherThrown string

text \<open>\<open>err instanceof Error ? err.message : String(err)\<close>\<close>

fun errorText :: "thrown \<Rightarrow> string" where
  "errorText (ErrorObject m) = m"
| "errorText (OtherThrown s) = s"

text \<open>
  How an awaited promise settles: fulfilled or rejected after so many milliseconds, or
  never settled at all.
\<close>

datatype 'a promise = Fulfilled millis 'a | Rejected millis thrown | Pending

subsection \<open>The agent and its collaborators\<close>

record ActionResult =
  res_success :: bool
  res_result :: "payload option"
  res_error :: "string option"

text \<open>\<open>action.execute(agent, parameters)\<close>; the agent argument is the enclosing agent and is
  left implicit.\<close>

record ExtensionAction =
  execute :: "(string \<times> payload) list \<Rightarrow> ActionResult promise"

text \<open>
  \<open>actions ext name\<close> is the value of \<open>ext.actions[name]\<close> as the test \<open>if (action)\<close> of the
  dispatch loop sees it: \<open>None\<close> when it is undefined. A property that is present without
  being an action (a plain object answers inherited names such as \<open>constructor\<close>) is an
  entry whose \<open>execute\<close> throws when called.
\<close>

record Extension =
  actions :: "string \<rightharpoonup> ExtensionAction"

record GenResult =
  content :: string
  totalTokens :: "int option"

text \<open>\<open>portal.generateChat(messages, {maxTokens})\<close> with the single user message's content.\<close>

record Portal =
  generateChat :: "string option \<Rightarrow> int option \<Rightarrow> GenResult promise"

text \<open>The object handed to \<open>memory.store\<close>; its constant fields (importance, tags,
  duration) are left out.\<close>

datatype MemoryId = EmptyId | MemId millis string

record MemoryRecord =
  rec_id :: MemoryId
  rec_agentId :: string
  rec_type :: string
  rec_content :: payload
  rec_metadata :: "(string \<times> payload) list"
  rec_timestamp :: millis

record MemoryProvider =
  retrieve :: "string \<Rightarrow> payload list promise"
  store :: "string \<Rightarrow> MemoryRecord \<Rightarrow> unit promise"

record Agent =
  agent_id :: string
  portal :: "Portal option"
  memory :: MemoryProvider
  extensions :: "Extension list"

subsection \<open>Settings and the gateway state\<close>

text \<open>The settings that decide which middleware is mounted and how it is configured; port,
  host, the CORS lists, the WebSocket path and the logging options are left out.\<close>

record ApiSettings =
  cors_enabled :: bool
  rateLimit_enabled :: bool
  rateLimit_windowMs :: millis
  rateLimit_maxRequests :: int
  websocket_enabled :: bool
  auth_enabled :: bool
  auth_secret :: string

text \<open>\<open>getDefaultSettings\<close>, with the secret read from the environment passed in.\<close>

definition getDefaultSettings :: "string option \<Rightarrow> ApiSettings" where
  "getDefaultSettings env_secret =
     \<lparr> cors_enabled = True,
       rateLimit_enabled = True,
       rateLimit_windowMs = 60000,
       rateLimit_maxRequests = 100,
       websocket_enabled = True,
       auth_enabled = False,
       auth_secret = (case env_secret of
                        None \<Rightarrow> ''default-secret''
                      | Some s \<Rightarrow> if s = [] then ''default-secret'' else s) \<rparr>"

text \<open>A socket is named by a handle; \<open>connections\<close> is the \<open>Map<string, WebSocket>\<close>.
  In the examples the ids \<open>i\<close> and \<open>9\<close> are those of the draws 0.5 and 0.25, which render
  as \<open>0.i\<close> and \<open>0.9\<close> in base 36.\<close>

type_synonym WebSocket = nat

record gateway =
  agent :: "Agent option"
  apiConfig :: ApiSettings
  connections :: "string \<rightharpoonup> WebSocket"

section \<open>Request and response shapes\<close>

record ChatRequest =
  message :: "string option"
  maxTokens :: "int option"
  req_sessionId :: "string option"

record ChatMetadata =
  tokensUsed :: "int option"
  processingTime :: millis

record ChatResponse =
  response :: string
  sessionId :: "string option"
  timestamp :: millis
  metadata :: "ChatMetadata option"

record MemoryRequest =
  mem_type :: "string option"
  mem_content :: payload
  mem_metadata :: "(string \<times> payload) list option"

record MemoryResponse =
  mem_success :: bool
  mem_id :: MemoryId
  mem_timestamp :: millis
  mem_error :: "string option"

record ActionRequest =
  action :: string
  parameters :: "(string \<times> payload) list option"

record ActionResponse =
  success :: bool
  result :: "payload option"
  error :: "string option"
  executionTime :: millis

section \<open>Action dispatch\<close>

definition notFoundText :: "string \<Rightarrow> string" where
  "notFoundText name = ''Action '' @ [CHR 0x27] @ name @ [CHR 0x27] @ '' not found''"

text \<open>
  The loop of \<open>executeAction\<close> over \<open>this.agent.extensions\<close>: the first extension that has
  an action under the requested name runs it and the loop returns from there, whether the
  action returns or throws. The await has no time bound.
\<close>

fun actionLoop :: "Extension list \<Rightarrow> ActionRequest \<Rightarrow> ActionResponse promise" where
  "actionLoop [] request =
     Fulfilled 0 \<lparr> success = False, result = None,
                   error = Some (notFoundText (action request)), executionTime = 0 \<rparr>"
| "actionLoop (ext # rest) request =
     (case actions ext (action request) of
        None \<Rightarrow> actionLoop rest request
      | Some act \<Rightarrow>
          (case execute act (case parameters request of None \<Rightarrow> [] | Some ps \<Rightarrow> ps) of
             Fulfilled d res \<Rightarrow>
               Fulfilled d \<lparr> success = res_success res, result = res_result res,
                             error = res_error res, executionTime = d \<rparr>
           | Rejected d err \<Rightarrow>
               Fulfilled d \<lparr> success = False, result = None,
                             error = Some (errorText err), executionTime = d \<rparr>
           | Pending \<Rightarrow> Pending))"

definition executeAction :: "gateway \<Rightarrow> ActionRequest \<Rightarrow> ActionResponse promise" where
  "executeAction gw request =
     (case agent gw of
        None \<Rightarrow>
          Fulfilled 0 \<lparr> success = False, result = None,
                        error = Some ''Agent not initialized'', executionTime = 0 \<rparr>
      | Some a \<Rightarrow> actionLoop (extensions a) request)"

section \<open>Chat and memory\<close>

definition processChatMessage :: "gateway \<Rightarrow> ChatRequest \<Rightarrow> millis \<Rightarrow> ChatResponse promise" where
  "processChatMessage gw request now =
     (case agent gw of
        None \<Rightarrow>
          Fulfilled 0 \<lparr> response = ''Agent not initialized'', sessionId = None,
                        timestamp = now, metadata = None \<rparr>
      | Some a \<Rightarrow>
          (case portal a of
             None \<Rightarrow>
               Fulfilled 0 \<lparr> response = ''No portal configured for agent'', sessionId = None,
                             timestamp = now, metadata = None \<rparr>
           | Some p \<Rightarrow>
               (case generateChat p (message request) (maxTokens request) of
                  Fulfilled d r \<Rightarrow>
                    Fulfilled d \<lparr> response = content r, sessionId = req_sessionId request,
                                  timestamp = now + d,
                                  metadata = Some \<lparr> tokensUsed = totalTokens r,
                                                    processingTime = d \<rparr> \<rparr>
                | Rejected d err \<Rightarrow>
                    Fulfilled d \<lparr> response = ''Failed to process chat'',
                                  sessionId = req_sessionId request,
                                  timestamp = now + d,
                                  metadata = Some \<lparr> tokensUsed = None,
                                                    processingTime = d \<rparr> \<rparr>
                | Pending \<Rightarrow> Pending)))"

definition getMemories :: "gateway \<Rightarrow> payload list promise" where
  "getMemories gw =
     (case agent gw of
        None \<Rightarrow> Fulfilled 0 []
      | Some a \<Rightarrow>
          (case retrieve (memory a) (agent_id a) of
             Fulfilled d ms \<Rightarrow> Fulfilled d ms
           | Rejected d err \<Rightarrow> Fulfilled d []
           | Pending \<Rightarrow> Pending))"

text \<open>\<open>draw\<close> is the rendering \<open>Math.random().toString(36)\<close> of the random draw.\<close>

definition storeMemory ::
  "gateway \<Rightarrow> MemoryRequest \<Rightarrow> millis \<Rightarrow> string \<Rightarrow> MemoryResponse promise" where
  "storeMemory gw request now draw =
     (case agent gw of
        None \<Rightarrow>
          Fulfilled 0 \<lparr> mem_success = False, mem_id = EmptyId, mem_timestamp = now,
                        mem_error = Some ''Agent not initialized'' \<rparr>
      | Some a \<Rightarrow>
          (let m = \<lparr> rec_id = MemId now (take 6 (drop 2 draw)),
                     rec_agentId = agent_id a,
                     rec_type = (case mem_type request of
                                   None \<Rightarrow> ''experience''
                                 | Some t \<Rightarrow> if t = [] then ''experience'' else t),
                     rec_content = mem_content request,
                     rec_metadata = (case mem_metadata request of None \<Rightarrow> [] | Some md \<Rightarrow> md),
                     rec_timestamp = now \<rparr>
           in case store (memory a) (agent_id a) m of
                Fulfilled d u \<Rightarrow>
                  Fulfilled d \<lparr> mem_success = True, mem_id = rec_id m,
                                mem_timestamp = rec_timestamp m, mem_error = None \<rparr>
              | Rejected d err \<Rightarrow>
                  Fulfilled d \<lparr> mem_success = False, mem_id = rec_id m,
                                mem_timestamp = rec_timestamp m,
                                mem_error = Some (errorText err) \<rparr>
              | Pending \<Rightarrow> Pending))"

section \<open>The HTTP transport\<close>

datatype Body =
    ErrorBody string
  | ChatBody ChatResponse
  | MemoriesBody "payload list"
  | MemoryBody MemoryResponse
  | ActionBody ActionResponse

record HttpResponse =
  status :: nat
  body :: Body

text \<open>\<open>res.json(x)\<close> answers with status 200; \<open>res.status(n).json(x)\<close> with status \<open>n\<close>.
  A route handler is modelled by the list of responses it writes: empty while an awaited
  call never settles.\<close>

definition json :: "Body \<Rightarrow> HttpResponse" where
  "json b = \<lparr> status = 200, body = b \<rparr>"

definition status_json :: "nat \<Rightarrow> Body \<Rightarrow> HttpResponse" where
  "status_json n b = \<lparr> status = n, body = b \<rparr>"

definition postChat :: "gateway \<Rightarrow> ChatRequest \<Rightarrow> millis \<Rightarrow> HttpResponse list" where
  "postChat gw chatRequest now =
     (if message chatRequest = None \<or> message chatRequest = Some []
      then [status_json 400 (ErrorBody ''Message is required'')]
      else case processChatMessage gw chatRequest now of
             Fulfilled d r \<Rightarrow> [json (ChatBody r)]
           | Rejected d err \<Rightarrow> [status_json 500 (ErrorBody ''Internal server error'')]
           | Pending \<Rightarrow> [])"

definition getMemory :: "gateway \<Rightarrow> HttpResponse list" where
  "getMemory gw =
     (case getMemories gw of
        Fulfilled d ms \<Rightarrow> [json (MemoriesBody ms)]
      | Rejected d err \<Rightarrow> [status_json 500 (ErrorBody ''Failed to retrieve memories'')]
      | Pending \<Rightarrow> [])"

definition postMemory :: "gateway \<Rightarrow> MemoryRequest \<Rightarrow> millis \<Rightarrow> string \<Rightarrow> HttpResponse list" where
  "postMemory gw memoryRequest now draw =
     (case storeMemory gw memoryRequest now draw of
        Fulfilled d r \<Rightarrow> [json (MemoryBody r)]
      | Rejected d err \<Rightarrow> [status_json 500 (ErrorBody ''Failed to store memory'')]
      | Pending \<Rightarrow> [])"

definition postAction :: "gateway \<Rightarrow> ActionRequest \<Rightarrow> HttpResponse list" where
  "postAction gw actionRequest =
     (case executeAction gw actionRequest of
        Fulfilled d r \<Rightarrow> [json (ActionBody r)]
      | Rejected d err \<Rightarrow> [status_json 500 (ErrorBody ''Failed to execute action'')]
      | Pending \<Rightarrow> [])"

subsection \<open>Middleware\<close>

datatype MiddlewareResult = Next | Respond HttpResponse

text \<open>\<open>authHeader.startsWith('Bearer ')\<close> and \<open>authHeader.substring(7)\<close>.\<close>

definition authMiddleware :: "ApiSettings \<Rightarrow> string option \<Rightarrow> MiddlewareResult" where
  "authMiddleware cfg authHeader =
     (case authHeader of
        None \<Rightarrow> Respond (status_json 401 (ErrorBody ''Unauthorized''))
      | Some h \<Rightarrow>
          if h = [] \<or> take 7 h \<noteq> ''Bearer ''
          then Respond (status_json 401 (ErrorBody ''Unauthorized''))
          else if drop 7 h \<noteq> auth_secret cfg
          then Respond (status_json 401 (ErrorBody ''Invalid token''))
          else Next)"

text \<open>\<open>setupMiddleware\<close> mounts the authentication middleware only when it is enabled.\<close>

definition authStage :: "ApiSettings \<Rightarrow> string option \<Rightarrow> MiddlewareResult" where
  "authStage cfg authHeader =
     (if auth_enabled cfg then authMiddleware cfg authHeader else Next)"

text \<open>The routes that carry commands; the probes \<open>/health\<close> and \<open>/status\<close> are left out.\<close>

datatype Route =
    PostChat ChatRequest
  | GetMemory
  | PostMemory MemoryRequest
  | PostAction ActionRequest

record HttpRequest =
  authorization :: "string option"
  route :: Route

fun routeHandler :: "gateway \<Rightarrow> Route \<Rightarrow> millis \<Rightarrow> string \<Rightarrow> HttpResponse list" where
  "routeHandler gw (PostChat r) now draw = postChat gw r now"
| "routeHandler gw GetMemory now draw = getMemory gw"
| "routeHandler gw (PostMemory r) now draw = postMemory gw r now draw"
| "routeHandler gw (PostAction r) now draw = postAction gw r"

text \<open>
  The express chain in mounting order: the library middleware (body parsers, \<open>cors\<close>,
  \<open>express-rate-limit\<close>), then authentication, then the routes. The library middleware is
  not part of this source; \<open>earlier\<close> is what it did with the request: \<open>Some r\<close> when one of
  them answered it, \<open>None\<close> when all of them called \<open>next()\<close>.
\<close>

definition handleRequest ::
  "gateway \<Rightarrow> HttpResponse option \<Rightarrow> HttpRequest \<Rightarrow> millis \<Rightarrow> string \<Rightarrow> HttpResponse list" where
  "handleRequest gw earlier req now draw =
     (case earlier of
        Some r \<Rightarrow> [r]
      | None \<Rightarrow>
          (case authStage (apiConfig gw) (authorization req) of
             Respond r \<Rightarrow> [r]
           | Next \<Rightarrow> routeHandler gw (route req) now draw))"

section \<open>The WebSocket transport\<close>

text \<open>
  What \<open>JSON.parse\<close> hands to \<open>handleWebSocketMessage\<close>: \<open>null\<close>, on which reading
  \<open>message.type\<close> throws, or a value with its \<open>type\<close> and \<open>data\<close> properties when present.
\<close>

datatype WebSocketMessage =
    NullMessage
  | Message (mtype: "string option") (mdata: "string option")

text \<open>The objects written with \<open>ws.send(JSON.stringify(...))\<close>.\<close>

datatype Envelope =
    Welcome string millis
  | Pong millis
  | ChatResponseEnv ChatResponse
  | ErrorEnv string

text \<open>The \<open>type\<close> property of a sent object, when it has one.\<close>

fun envelope_type :: "Envelope \<Rightarrow> string option" where
  "envelope_type (Welcome cid t) = Some ''welcome''"
| "envelope_type (Pong t) = Some ''pong''"
| "envelope_type (ChatResponseEnv r) = Some ''chat_response''"
| "envelope_type (ErrorEnv m) = None"

text \<open>The \<open>error\<close> property of a sent object, when it has one.\<close>

fun envelope_error :: "Envelope \<Rightarrow> string option" where
  "envelope_error (ErrorEnv m) = Some m"
| "envelope_error e = None"

type_synonym Send = "WebSocket \<times> Envelope"

text \<open>
  \<open>handleWebSocketMessage\<close> returns the state and the sends it made, in order. Sending is
  taken to succeed. The chat case awaits \<open>processChatMessage\<close> without a time bound.
\<close>

definition handleWebSocketMessage ::
  "gateway \<Rightarrow> string \<Rightarrow> WebSocketMessage \<Rightarrow> millis \<Rightarrow> gateway \<times> Send list" where
  "handleWebSocketMessage gw connectionId msg now =
     (case connections gw connectionId of
        None \<Rightarrow> (gw, [])
      | Some ws \<Rightarrow>
          (case msg of
             NullMessage \<Rightarrow> (gw, [(ws, ErrorEnv ''Failed to process message'')])
           | Message ty dat \<Rightarrow>
               if ty = Some ''ping'' then (gw, [(ws, Pong now)])
               else if ty = Some ''chat'' then
                 (case processChatMessage gw
                         \<lparr> message = dat, maxTokens = None, req_sessionId = None \<rparr> now of
                    Fulfilled d r \<Rightarrow> (gw, [(ws, ChatResponseEnv r)])
                  | Rejected d err \<Rightarrow> (gw, [(ws, ErrorEnv ''Failed to process message'')])
                  | Pending \<Rightarrow> (gw, []))
               else (gw, [(ws, ErrorEnv ''Unknown message type'')])))"

text \<open>\<open>Math.random().toString(36).substring(2, 15)\<close> on the rendering of the draw.\<close>

definition generateConnectionId :: "string \<Rightarrow> string" where
  "generateConnectionId draw = take 13 (drop 2 draw)"

text \<open>The handlers that \<open>setupWebSocketServer\<close> installs: on connection, on message (with
  \<open>None\<close> for data that \<open>JSON.parse\<close> rejects), on close and on error.\<close>

definition onConnection :: "gateway \<Rightarrow> WebSocket \<Rightarrow> string \<Rightarrow> millis \<Rightarrow> gateway \<times> Send list" where
  "onConnection gw ws draw now =
     (let connectionId = generateConnectionId draw
      in (gw\<lparr> connections := (connections gw)(connectionId \<mapsto> ws) \<rparr>,
          [(ws, Welcome connectionId now)]))"

definition onMessage ::
  "gateway \<Rightarrow> string \<Rightarrow> WebSocket \<Rightarrow> WebSocketMessage option \<Rightarrow> millis \<Rightarrow> gateway \<times> Send list" where
  "onMessage gw connectionId ws parsed now =
     (case parsed of
        None \<Rightarrow> (gw, [(ws, ErrorEnv ''Invalid message format'')])
      | Some msg \<Rightarrow> handleWebSocketMessage gw connectionId msg now)"

definition onClose :: "gateway \<Rightarrow> string \<Rightarrow> gateway" where
  "onClose gw connectionId = gw\<lparr> connections := (connections gw)(connectionId := None) \<rparr>"

definition onError :: "gateway \<Rightarrow> string \<Rightarrow> gateway" where
  "onError gw connectionId = gw\<lparr> connections := (connections gw)(connectionId := None) \<rparr>"

section \<open>Notions used to state the properties\<close>

text \<open>\<open>request.parameters || {}\<close>\<close>

definition parametersOrEmpty :: "ActionRequest \<Rightarrow> (string \<times> payload) list" where
  "parametersOrEmpty request = (case parameters request of None \<Rightarrow> [] | Some ps \<Rightarrow> ps)"

text \<open>
  The handler registered for a name: the action of the first extension, in the order of
  the agent's list, that has one under that name. It is the one the loop of
  \<open>executeAction\<close> reaches.
\<close>

fun resolveAction :: "Extension list \<Rightarrow> string \<Rightarrow> ExtensionAction option" where
  "resolveAction [] name = None"
| "resolveAction (ext # rest) name =
     (case actions ext name of
        None \<Rightarrow> resolveAction rest name
      | Some act \<Rightarrow> Some act)"

text \<open>The response built from a handler that returned, one that threw, and the two
  responses that involve no handler.\<close>

definition completedResponse :: "ActionResult \<Rightarrow> millis \<Rightarrow> ActionResponse" where
  "completedResponse res d =
     \<lparr> success = res_success res, result = res_result res,
       error = res_error res, executionTime = d \<rparr>"

definition failureResponse :: "string \<Rightarrow> millis \<Rightarrow> ActionResponse" where
  "failureResponse msg d =
     \<lparr> success = False, result = None, error = Some msg, executionTime = d \<rparr>"

subsection \<open>Example configurations\<close>

definition echoAction :: ExtensionAction where
  "echoAction =
     \<lparr> execute = (\<lambda>ps. Fulfilled 0 \<lparr> res_success = True, res_result = map_of ps ''text'',
                                       res_error = None \<rparr>) \<rparr>"

definition failingAction :: ExtensionAction where
  "failingAction = \<lparr> execute = (\<lambda>ps. Rejected 5 (ErrorObject ''boom'')) \<rparr>"

definition slowAction :: ExtensionAction where
  "slowAction =
     \<lparr> execute = (\<lambda>ps. Fulfilled 200 \<lparr> res_success = True, res_result = Some ''done'',
                                         res_error = None \<rparr>) \<rparr>"

definition stuckAction :: ExtensionAction where
  "stuckAction = \<lparr> execute = (\<lambda>ps. Pending) \<rparr>"

definition toolsExtension :: Extension where
  "toolsExtension =
     \<lparr> actions = [''echo'' \<mapsto> echoAction, ''fail'' \<mapsto> failingAction,
                   ''slow'' \<mapsto> slowAction, ''stuck'' \<mapsto> stuckAction] \<rparr>"

definition quietMemory :: MemoryProvider where
  "quietMemory = \<lparr> retrieve = (\<lambda>i. Fulfilled 1 []), store = (\<lambda>i m. Fulfilled 1 ()) \<rparr>"

definition demoAgent :: Agent where
  "demoAgent =
     \<lparr> agent_id = ''agent-1'', portal = None, memory = quietMemory,
       extensions = [toolsExtension] \<rparr>"

definition demoGateway :: gateway where
  "demoGateway =
     \<lparr> agent = Some demoAgent, apiConfig = getDefaultSettings None,
       connections = [''i'' \<mapsto> 1] \<rparr>"

definition bareGateway :: gateway where
  "bareGateway =
     \<lparr> agent = None, apiConfig = getDefaultSettings None, connections = Map.empty \<rparr>"

definition steadyExtension :: Extension where
  "steadyExtension = \<lparr> actions = [''echo'' \<mapsto> echoAction, ''fail'' \<mapsto> failingAction] \<rparr>"

definition steadyGateway :: gateway where
  "steadyGateway =
     \<lparr> agent = Some \<lparr> agent_id = ''agent-2'', portal = None, memory = quietMemory,
                      extensions = [steadyExtension] \<rparr>,
       apiConfig = getDefaultSettings None,
       connections = [''i'' \<mapsto> 1] \<rparr>"

definition securedGateway :: gateway where
  "securedGateway =
     \<lparr> agent = None,
       apiConfig = (getDefaultSettings (Some ''secret''))\<lparr> auth_enabled := True \<rparr>,
       connections = Map.empty \<rparr>"

text \<open>A handler that throws an \<open>Error\<close> whose message reads like the not-found answer for
  the name \<open>ghost\<close>, and one that throws a bare string.\<close>

definition mimicAction :: ExtensionAction where
  "mimicAction = \<lparr> execute = (\<lambda>ps. Rejected 0 (ErrorObject (notFoundText ''ghost''))) \<rparr>"

definition rawThrowAction :: ExtensionAction where
  "rawThrowAction = \<lparr> execute = (\<lambda>ps. Rejected 2 (OtherThrown ''bad input'')) \<rparr>"

definition mimicGateway :: gateway where
  "mimicGateway =
     \<lparr> agent = Some \<lparr> agent_id = ''agent-3'', portal = None, memory = quietMemory,
                      extensions = [\<lparr> actions = [''mimic'' \<mapsto> mimicAction,
                                                  ''raw'' \<mapsto> rawThrowAction] \<rparr>] \<rparr>,
       apiConfig = getDefaultSettings None,
       connections = Map.empty \<rparr>"

text \<open>A gateway with authentication enabled whose agent has a portal that answers.\<close>

definition helloPortal :: Portal where
  "helloPortal =
     \<lparr> generateChat = (\<lambda>c t. Fulfilled 3 \<lparr> content = ''hello'', totalTokens = None \<rparr>) \<rparr>"

definition securedChatGateway :: gateway where
  "securedChatGateway =
     \<lparr> agent = Some \<lparr> agent_id = ''agent-4'', portal = Some helloPortal, memory = quietMemory,
                      extensions = [] \<rparr>,
       apiConfig = (getDefaultSettings (Some ''secret''))\<lparr> auth_enabled := True \<rparr>,
       connections = Map.empty \<rparr>"

subsection \<open>Settling collaborators\<close>

text \<open>
  Every call the gateway awaits on the agent's collaborators (portal, memory provider,
  extension actions) settles, by returning or by throwing.
\<close>

definition collaboratorsSettle :: "gateway \<Rightarrow> bool" where
  "collaboratorsSettle gw =
     (case agent gw of
        None \<Rightarrow> True
      | Some a \<Rightarrow>
          (\<forall>p c t. portal a = Some p \<longrightarrow> generateChat p c t \<noteq> Pending)
        \<and> (\<forall>i. retrieve (memory a) i \<noteq> Pending)
        \<and> (\<forall>i m. store (memory a) i m \<noteq> Pending)
        \<and> (\<forall>ext \<in> set (extensions a). \<forall>n act ps.
              actions ext n = Some act \<longrightarrow> execute act ps \<noteq> Pending))"

subsection \<open>A run of connections\<close>

text \<open>Connections arriving one after the other, each with its socket, its random draw and
  the clock reading.\<close>

fun connectAll :: "gateway \<Rightarrow> (WebSocket \<times> string \<times> millis) list \<Rightarrow> gateway" where
  "connectAll gw [] = gw"
| "connectAll gw ((ws, draw, now) # rest) = connectAll (fst (onConnection gw ws draw now)) rest"

definition drawnIds :: "(WebSocket \<times> string \<times> millis) list \<Rightarrow> string list" where
  "drawnIds evs = map (\<lambda>(ws, draw, now). generateConnectionId draw) evs"

section \<open>The rate limiter\<close>

text \<open>
  Modelled from the spec: the rate window. \<open>setupMiddleware\<close> only configures the
  \<open>express-rate-limit\<close> middleware with \<open>windowMs\<close> and \<open>maxRequests\<close>; the middleware itself
  is not under \<open>src/\<close>, and the map \<open>rateLimiters\<close> declared in the class is never read or
  written. The spec's \<open>RateWindow\<close> is \<open>{ windowStart: timestamp, count: integer }\<close>, kept per
  client key.
\<close>

record RateWindow =
  windowStart :: millis
  count :: int

text \<open>Modelled from the spec: the error kinds of \<open>ErrorInfo\<close> and the outcome
  \<open>Allow | Deny(ErrorInfo)\<close> of the policy layer's \<open>admit\<close>.\<close>

datatype ErrorKind =
  NOT_FOUND | UNAUTHORIZED | RATE_LIMITED | BAD_INPUT | HANDLER_FAILURE | TIMEOUT | INTERNAL

datatype Decision = Allow | Deny ErrorKind

text \<open>Modelled from the spec: the fresh window, \<open>windowStart = now, count = 1\<close>.\<close>

definition freshWindow :: "millis \<Rightarrow> RateWindow" where
  "freshWindow now = \<lparr> windowStart = now, count = 1 \<rparr>"

text \<open>
  Modelled from the spec: the rate-limiting step of \<open>admit\<close>, which stands for the absent
  \<open>express-rate-limit\<close> middleware. On each call: if no window exists or
  \<open>now \<ge> windowStart + windowSizeMs\<close>, start a fresh window, else increment \<open>count\<close>; if
  the count after that exceeds \<open>maxRequests\<close>, deny with \<open>RATE_LIMITED\<close>; the updated
  window is recorded either way. Window size and maximum are the configured
  \<open>rateLimit.windowMs\<close> and \<open>rateLimit.maxRequests\<close>.
\<close>

definition rateLimitAdmit ::
  "ApiSettings \<Rightarrow> (string \<rightharpoonup> RateWindow) \<Rightarrow> string \<Rightarrow> millis
     \<Rightarrow> (string \<rightharpoonup> RateWindow) \<times> Decision" where
  "rateLimitAdmit cfg windows clientKey now =
     (let w = (case windows clientKey of
                 None \<Rightarrow> freshWindow now
               | Some w0 \<Rightarrow>
                   if now \<ge> windowStart w0 + rateLimit_windowMs cfg
                   then freshWindow now
                   else w0\<lparr> count := count w0 + 1 \<rparr>)
      in (windows(clientKey \<mapsto> w),
          if count w > rateLimit_maxRequests cfg then Deny RATE_LIMITED else Allow))"

text \<open>A sequence of admit calls, each with its client key and clock reading.\<close>

fun admitAll ::
  "ApiSettings \<Rightarrow> (string \<rightharpoonup> RateWindow) \<Rightarrow> (string \<times> millis) list
     \<Rightarrow> (string \<rightharpoonup> RateWindow) \<times> Decision list" where
  "admitAll cfg windows [] = (windows, [])"
| "admitAll cfg windows ((clientKey, now) # calls) =
     (let (windows', d) = rateLimitAdmit cfg windows clientKey now;
          (windows'', ds) = admitAll cfg windows' calls
      in (windows'', d # ds))"

text \<open>The limits of the spec's test: three requests per second.\<close>

definition threePerSecond :: ApiSettings where
  "threePerSecond =
     (getDefaultSettings None)\<lparr> rateLimit_windowMs := 1000, rateLimit_maxRequests := 3 \<rparr>"

section \<open>Dispatch: what the loop does with the resolved handler\<close>

lemma actionLoop_unresolved:
  "resolveAction exts (action request) = None \<Longrightarrow>
   actionLoop exts request = Fulfilled 0 (failureResponse (notFoundText (action request)) 0)"
  by (induction exts) (auto simp: failureResponse_def split: option.splits)

lemma actionLoop_resolved:
  "resolveAction exts (action request) = Some act \<Longrightarrow>
   actionLoop exts request =
     (case execute act (parametersOrEmpty request) of
        Fulfilled d res \<Rightarrow> Fulfilled d (completedResponse res d)
      | Rejected d err \<Rightarrow> Fulfilled d (failureResponse (errorText err) d)
      | Pending \<Rightarrow> Pending)"
  by (induction exts)
     (auto simp: failureResponse_def completedResponse_def parametersOrEmpty_def
           split: option.splits promise.splits)

lemma actionLoop_never_rejects: "actionLoop exts request \<noteq> Rejected d err"
  by (induction exts) (auto split: option.splits promise.splits)

lemma executeAction_never_rejects: "executeAction gw request \<noteq> Rejected d err"
  by (simp add: executeAction_def actionLoop_never_rejects split: option.splits)

lemma executeAction_resolved:
  assumes "agent gw = Some a"
      and "resolveAction (extensions a) (action request) = Some act"
  shows "executeAction gw request =
           (case execute act (parametersOrEmpty request) of
              Fulfilled d res \<Rightarrow> Fulfilled d (completedResponse res d)
            | Rejected d err \<Rightarrow> Fulfilled d (failureResponse (errorText err) d)
            | Pending \<Rightarrow> Pending)"
  using assms by (simp add: executeAction_def actionLoop_resolved)

lemma resolve_tools [simp]:
  "resolveAction (extensions demoAgent) ''echo'' = Some echoAction"
  "resolveAction (extensions demoAgent) ''fail'' = Some failingAction"
  "resolveAction (extensions demoAgent) ''slow'' = Some slowAction"
  "resolveAction (extensions demoAgent) ''stuck'' = Some stuckAction"
  "resolveAction (extensions demoAgent) ''nope'' = None"
  by (simp_all add: demoAgent_def toolsExtension_def)

lemma agent_demoGateway [simp]: "agent demoGateway = Some demoAgent"
  by (simp add: demoGateway_def)

text \<open>
  C3, as claimed, fails: the response has no error kind. \<open>executeAction\<close> answers a thrown
  handler error with \<open>{success: false, error: <text>, executionTime}\<close>, where \<open>error\<close> is a
  bare string, and an unregistered name with an object of the same shape. When the handler
  registered as \<open>mimic\<close> throws an error whose message is the not-found text for \<open>ghost\<close>,
  the response to \<open>mimic\<close> is the very response to the unregistered \<open>ghost\<close>: nothing in it
  says \<open>HANDLER_FAILURE\<close>.
\<close>

theorem handler_failure_kind_counterexample:
  "executeAction mimicGateway \<lparr> action = ''mimic'', parameters = None \<rparr>
     = Fulfilled 0 \<lparr> success = False, result = None,
                     error = Some ''Action 'ghost' not found'', executionTime = 0 \<rparr>
   \<and> executeAction mimicGateway \<lparr> action = ''ghost'', parameters = None \<rparr>
     = Fulfilled 0 \<lparr> success = False, result = None,
                     error = Some ''Action 'ghost' not found'', executionTime = 0 \<rparr>"
  by (simp add: executeAction_def mimicGateway_def mimicAction_def notFoundText_def)

text \<open>
  C3, amended. When the handler resolved for a command throws, \<open>executeAction\<close> catches the
  thrown value and fulfils with \<open>{success: false, error: <text>, executionTime}\<close>, where the
  text is the message of a thrown \<open>Error\<close> and the string rendering of any other thrown
  value, \<open>executionTime\<close> is the time the handler took, and there is no error kind; the
  \<open>/action\<close> route sends that response as an ordinary status 200 body; and in no case does
  \<open>executeAction\<close> itself reject.
\<close>

theorem handler_error_contained:
  assumes "agent gw = Some a"
      and "resolveAction (extensions a) (action request) = Some act"
  shows "(execute act (parametersOrEmpty request) = Rejected d (ErrorObject m) \<longrightarrow>
            executeAction gw request
              = Fulfilled d \<lparr> success = False, result = None, error = Some m,
                              executionTime = d \<rparr>
            \<and> postAction gw request
              = [\<lparr> status = 200,
                   body = ActionBody \<lparr> success = False, result = None, error = Some m,
                                       executionTime = d \<rparr> \<rparr>])
       \<and> (execute act (parametersOrEmpty request) = Rejected d (OtherThrown m) \<longrightarrow>
            executeAction gw request
              = Fulfilled d \<lparr> success = False, result = None, error = Some m,
                              executionTime = d \<rparr>
            \<and> postAction gw request
              = [\<lparr> status = 200,
                   body = ActionBody \<lparr> success = False, result = None, error = Some m,
                                       executionTime = d \<rparr> \<rparr>])
       \<and> (\<forall>gw' request' d' err'. executeAction gw' request' \<noteq> Rejected d' err')"
proof -
  have run: "executeAction gw request
              = Fulfilled d \<lparr> success = False, result = None, error = Some (errorText err),
                              executionTime = d \<rparr>"
    if "execute act (parametersOrEmpty request) = Rejected d err" for err
    using executeAction_resolved [OF assms] that by (simp add: failureResponse_def)
  have route: "postAction gw request
              = [\<lparr> status = 200,
                   body = ActionBody \<lparr> success = False, result = None,
                                       error = Some (errorText err), executionTime = d \<rparr> \<rparr>]"
    if "execute act (parametersOrEmpty request) = Rejected d err" for err
    using run [OF that] by (simp add: postAction_def json_def)
  from run [of "ErrorObject m"] route [of "ErrorObject m"]
       run [of "OtherThrown m"] route [of "OtherThrown m"]
  show ?thesis
    using executeAction_never_rejects by simp
qed

theorem handler_error_contained_witness:
  "executeAction demoGateway \<lparr> action = ''fail'', parameters = None \<rparr>
     = Fulfilled 5 \<lparr> success = False, result = None, error = Some ''boom'',
                     executionTime = 5 \<rparr>
   \<and> postAction demoGateway \<lparr> action = ''fail'', parameters = None \<rparr>
     = [\<lparr> status = 200,
          body = ActionBody \<lparr> success = False, result = None, error = Some ''boom'',
                              executionTime = 5 \<rparr> \<rparr>]
   \<and> executeAction mimicGateway \<lparr> action = ''raw'', parameters = None \<rparr>
     = Fulfilled 2 \<lparr> success = False, result = None, error = Some ''bad input'',
                     executionTime = 2 \<rparr>"
proof -
  have ex: "execute failingAction (parametersOrEmpty \<lparr> action = ''fail'', parameters = None \<rparr>)
              = Rejected 5 (ErrorObject ''boom'')"
    by (simp add: failingAction_def)
  have raw: "execute rawThrowAction (parametersOrEmpty \<lparr> action = ''raw'', parameters = None \<rparr>)
              = Rejected 2 (OtherThrown ''bad input'')"
    by (simp add: rawThrowAction_def)
  have reg: "agent mimicGateway
               = Some \<lparr> agent_id = ''agent-3'', portal = None, memory = quietMemory,
                        extensions = [\<lparr> actions = [''mimic'' \<mapsto> mimicAction,
                                                    ''raw'' \<mapsto> rawThrowAction] \<rparr>] \<rparr>"
    by (simp add: mimicGateway_def)
  have res: "resolveAction
               (extensions \<lparr> agent_id = ''agent-3'', portal = None, memory = quietMemory,
                              extensions = [\<lparr> actions = [''mimic'' \<mapsto> mimicAction,
                                                          ''raw'' \<mapsto> rawThrowAction] \<rparr>] \<rparr>)
               (action \<lparr> action = ''raw'', parameters = None \<rparr>) = Some rawThrowAction"
    by simp
  show ?thesis
    using handler_error_contained
            [of demoGateway demoAgent "\<lparr> action = ''fail'', parameters = None \<rparr>"
                failingAction 5 "''boom''"]
          handler_error_contained [OF reg res, of 2 "''bad input''"]
          ex raw
    by simp
qed

lemma resolveAction_None_iff:
  "resolveAction exts name = None \<longleftrightarrow> (\<forall>ext \<in> set exts. actions ext name = None)"
  by (induction exts) (auto split: option.splits)

lemma postAction_at_most_one: "length (postAction gw request) \<le> 1"
  by (simp add: postAction_def split: promise.splits)

text \<open>
  C2, as claimed, fails: the source has no timeout. With the tested bound of 50 ms, a
  handler that completes after 200 ms has its completion delivered, successfully, at
  200 ms; a handler that never completes leaves the dispatch unsettled and the \<open>/action\<close>
  request without a response.
\<close>

theorem dispatch_timeout_counterexample:
  "(50::millis) < 200
   \<and> executeAction demoGateway \<lparr> action = ''slow'', parameters = None \<rparr>
       = Fulfilled 200 \<lparr> success = True, result = Some ''done'', error = None,
                         executionTime = 200 \<rparr>
   \<and> executeAction demoGateway \<lparr> action = ''stuck'', parameters = None \<rparr> = Pending
   \<and> postAction demoGateway \<lparr> action = ''stuck'', parameters = None \<rparr> = []"
  by (simp add: executeAction_def postAction_def demoGateway_def demoAgent_def
        toolsExtension_def slowAction_def stuckAction_def)

text \<open>
  C2, amended. \<open>executeAction\<close> waits for the resolved handler however long it takes: it
  settles exactly when the handler does, with the handler's own outcome and
  \<open>executionTime\<close> equal to the time the handler took; if the handler never settles,
  neither does the dispatch, and the \<open>/action\<close> request gets no response. In every case
  the caller sees at most one response.
\<close>

theorem dispatch_waits_for_handler:
  assumes "agent gw = Some a"
      and "resolveAction (extensions a) (action request) = Some act"
  shows "(execute act (parametersOrEmpty request) = Fulfilled d res \<longrightarrow>
            executeAction gw request = Fulfilled d (completedResponse res d))
       \<and> (execute act (parametersOrEmpty request) = Rejected d err \<longrightarrow>
            executeAction gw request = Fulfilled d (failureResponse (errorText err) d))
       \<and> (execute act (parametersOrEmpty request) = Pending \<longrightarrow>
            executeAction gw request = Pending \<and> postAction gw request = [])
       \<and> length (postAction gw request) \<le> 1"
  using executeAction_resolved [OF assms] postAction_at_most_one [of gw request]
  by (simp add: postAction_def)

theorem dispatch_waits_for_handler_witness:
  "executeAction demoGateway \<lparr> action = ''slow'', parameters = None \<rparr>
     = Fulfilled 200 (completedResponse
         \<lparr> res_success = True, res_result = Some ''done'', res_error = None \<rparr> 200)
   \<and> executeAction demoGateway \<lparr> action = ''stuck'', parameters = None \<rparr> = Pending"
proof -
  have slow: "execute slowAction (parametersOrEmpty \<lparr> action = ''slow'', parameters = None \<rparr>)
      = Fulfilled 200 \<lparr> res_success = True, res_result = Some ''done'', res_error = None \<rparr>"
    by (simp add: slowAction_def)
  have stuck: "execute stuckAction (parametersOrEmpty \<lparr> action = ''stuck'', parameters = None \<rparr>)
      = Pending"
    by (simp add: stuckAction_def)
  show ?thesis
    using dispatch_waits_for_handler
            [of demoGateway demoAgent "\<lparr> action = ''slow'', parameters = None \<rparr>" slowAction
                200 "\<lparr> res_success = True, res_result = Some ''done'', res_error = None \<rparr>"]
          dispatch_waits_for_handler
            [of demoGateway demoAgent "\<lparr> action = ''stuck'', parameters = None \<rparr>" stuckAction]
          slow stuck
    by simp
qed

text \<open>
  C4, as claimed, fails when no agent has been set: no name is registered then, and the
  response is the guard's \<open>Agent not initialized\<close>, not the not-found response.
\<close>

theorem unregistered_name_counterexample:
  "agent bareGateway = None
   \<and> executeAction bareGateway \<lparr> action = ''nope'', parameters = None \<rparr>
       = Fulfilled 0 \<lparr> success = False, result = None,
                       error = Some ''Agent not initialized'', executionTime = 0 \<rparr>
   \<and> notFoundText ''nope'' \<noteq> ''Agent not initialized''"
  by (simp add: executeAction_def bareGateway_def notFoundText_def)

text \<open>
  C4, amended. With an agent set, a command under whose name the lookup
  \<open>ext.actions[name]\<close> is undefined in every extension (the name is neither registered
  nor a property that the actions object inherits) is answered
  \<open>{success: false, error: "Action '<name>' not found"}\<close>. No handler is invoked or
  awaited for it, whatever the registered handlers would do, so \<open>executionTime\<close> is the
  clock difference over the lookup loop alone, which is 0 on the clock used here, a clock
  that moves only across awaited calls. The \<open>/action\<close> route sends the answer as a status
  200 body. With no agent set, every command is answered
  \<open>{success: false, executionTime: 0, error: 'Agent not initialized'}\<close>.
\<close>

theorem unregistered_name_not_found:
  "(\<forall>a. agent gw = Some a \<longrightarrow> (\<forall>ext \<in> set (extensions a). actions ext (action request) = None) \<longrightarrow>
        executeAction gw request
          = Fulfilled 0 \<lparr> success = False, result = None,
                          error = Some (''Action '' @ [CHR 0x27] @ action request @ [CHR 0x27]
                                        @ '' not found''),
                          executionTime = 0 \<rparr>
      \<and> postAction gw request
          = [\<lparr> status = 200,
               body = ActionBody
                        \<lparr> success = False, result = None,
                          error = Some (''Action '' @ [CHR 0x27] @ action request @ [CHR 0x27]
                                        @ '' not found''),
                          executionTime = 0 \<rparr> \<rparr>])
   \<and> (agent gw = None \<longrightarrow>
        executeAction gw request
          = Fulfilled 0 \<lparr> success = False, result = None,
                          error = Some ''Agent not initialized'', executionTime = 0 \<rparr>)"
proof -
  have found: "executeAction gw request
          = Fulfilled 0 \<lparr> success = False, result = None,
                          error = Some (''Action '' @ [CHR 0x27] @ action request @ [CHR 0x27]
                                        @ '' not found''),
                          executionTime = 0 \<rparr>"
    if "agent gw = Some a" "\<forall>ext \<in> set (extensions a). actions ext (action request) = None"
    for a
    using that actionLoop_unresolved [of "extensions a" request]
    by (simp add: executeAction_def resolveAction_None_iff failureResponse_def notFoundText_def)
  have bare: "executeAction gw request
          = Fulfilled 0 \<lparr> success = False, result = None,
                          error = Some ''Agent not initialized'', executionTime = 0 \<rparr>"
    if "agent gw = None"
    using that by (simp add: executeAction_def)
  from found bare show ?thesis
    by (simp add: postAction_def json_def)
qed

theorem unregistered_name_not_found_witness:
  "executeAction demoGateway \<lparr> action = ''nope'', parameters = None \<rparr>
     = Fulfilled 0 \<lparr> success = False, result = None,
                     error = Some ''Action 'nope' not found'', executionTime = 0 \<rparr>
   \<and> executeAction bareGateway \<lparr> action = ''nope'', parameters = None \<rparr>
     = Fulfilled 0 \<lparr> success = False, result = None,
                     error = Some ''Agent not initialized'', executionTime = 0 \<rparr>"
proof -
  have none: "\<forall>ext \<in> set (extensions demoAgent).
                actions ext (action \<lparr> action = ''nope'', parameters = None \<rparr>) = None"
    by (simp add: demoAgent_def toolsExtension_def)
  have bare: "agent bareGateway = None"
    by (simp add: bareGateway_def)
  show ?thesis
    using unregistered_name_not_found [of demoGateway "\<lparr> action = ''nope'', parameters = None \<rparr>"]
          unregistered_name_not_found [of bareGateway "\<lparr> action = ''nope'', parameters = None \<rparr>"]
          none bare
    by simp
qed

section \<open>Authentication\<close>

lemma authMiddleware_pass_iff:
  "authMiddleware cfg hdr = Next \<longleftrightarrow> hdr = Some (''Bearer '' @ auth_secret cfg)"
proof
  assume pass: "authMiddleware cfg hdr = Next"
  then obtain h where h: "hdr = Some h" "take 7 h = ''Bearer ''" "drop 7 h = auth_secret cfg"
    by (auto simp: authMiddleware_def split: option.splits if_splits)
  have "h = take 7 h @ drop 7 h"
    by simp
  with h show "hdr = Some (''Bearer '' @ auth_secret cfg)"
    by simp
next
  assume "hdr = Some (''Bearer '' @ auth_secret cfg)"
  then show "authMiddleware cfg hdr = Next"
    by (simp add: authMiddleware_def)
qed

lemma authMiddleware_deny:
  "authMiddleware cfg hdr \<noteq> Next \<Longrightarrow>
   authMiddleware cfg hdr = Respond (status_json 401 (ErrorBody ''Unauthorized''))
   \<or> authMiddleware cfg hdr = Respond (status_json 401 (ErrorBody ''Invalid token''))"
  by (auto simp: authMiddleware_def split: option.splits if_splits)

lemma processChatMessage_apiConfig:
  "processChatMessage (gw\<lparr> apiConfig := cfg \<rparr>) request now = processChatMessage gw request now"
  by (simp add: processChatMessage_def)

lemma handleWebSocketMessage_apiConfig:
  "handleWebSocketMessage (gw\<lparr> apiConfig := cfg \<rparr>) connectionId msg now
     = (gw\<lparr> apiConfig := cfg \<rparr>, snd (handleWebSocketMessage gw connectionId msg now))"
  by (simp add: handleWebSocketMessage_def processChatMessage_apiConfig
           split: option.splits WebSocketMessage.splits promise.splits)

lemma onConnection_apiConfig:
  "onConnection (gw\<lparr> apiConfig := cfg \<rparr>) ws draw now
     = ((fst (onConnection gw ws draw now))\<lparr> apiConfig := cfg \<rparr>,
        snd (onConnection gw ws draw now))"
  by (simp add: onConnection_def Let_def)

text \<open>
  C6, as claimed, fails: only the HTTP routes sit behind the authentication middleware.
  The WebSocket server reads no token. With authentication enabled, a peer that presents
  nothing is registered and welcomed, and its \<open>chat\<close> frame reaches the portal and is
  answered with the portal's reply.
\<close>

theorem auth_gate_counterexample:
  "auth_enabled (apiConfig securedChatGateway)
   \<and> snd (onConnection securedChatGateway 1 ''0.i'' 0) = [(1, Welcome ''i'' 0)]
   \<and> snd (handleWebSocketMessage (fst (onConnection securedChatGateway 1 ''0.i'' 0)) ''i''
            (Message (Some ''chat'') (Some ''hi'')) 5)
       = [(1, ChatResponseEnv
                \<lparr> response = ''hello'', sessionId = None, timestamp = 8,
                  metadata = Some \<lparr> tokensUsed = None, processingTime = 3 \<rparr> \<rparr>)]"
  by (simp add: securedChatGateway_def getDefaultSettings_def onConnection_def Let_def
        generateConnectionId_def handleWebSocketMessage_def processChatMessage_def
        helloPortal_def)

text \<open>
  C6, amended. Authentication guards the HTTP routes only. With authentication enabled,
  a request to the \<open>/chat\<close>, \<open>/memory\<close> or \<open>/action\<close> route that the middleware mounted
  ahead of authentication has passed on gets a single 401
  response, and no route handler runs, whenever its \<open>Authorization\<close> header is anything
  other than \<open>Bearer <secret>\<close> (absent, without the \<open>Bearer\<close> prefix, or carrying another
  token), and reaches its route handler when the header is \<open>Bearer <secret>\<close>; with
  authentication disabled every such request reaches its route handler whatever its
  header. A request that the earlier middleware answers gets that answer alone. WebSocket
  connections and frames are never authenticated: a peer is registered and welcomed, and
  its frames are answered, in the same way whatever the settings are.
\<close>

theorem auth_gate:
  "(auth_enabled (apiConfig gw) \<longrightarrow>
      authorization req \<noteq> Some (''Bearer '' @ auth_secret (apiConfig gw)) \<longrightarrow>
      (\<exists>r. handleRequest gw None req now draw = [r] \<and> status r = 401
           \<and> (body r = ErrorBody ''Unauthorized'' \<or> body r = ErrorBody ''Invalid token'')))
   \<and> (auth_enabled (apiConfig gw) \<longrightarrow>
      authorization req = Some (''Bearer '' @ auth_secret (apiConfig gw)) \<longrightarrow>
      handleRequest gw None req now draw = routeHandler gw (route req) now draw)
   \<and> (\<not> auth_enabled (apiConfig gw) \<longrightarrow>
      handleRequest gw None req now draw = routeHandler gw (route req) now draw)
   \<and> handleRequest gw (Some answered) req now draw = [answered]
   \<and> onConnection (gw\<lparr> apiConfig := cfg \<rparr>) ws draw now
       = ((fst (onConnection gw ws draw now))\<lparr> apiConfig := cfg \<rparr>,
          snd (onConnection gw ws draw now))
   \<and> handleWebSocketMessage (gw\<lparr> apiConfig := cfg \<rparr>) connectionId msg now
       = (gw\<lparr> apiConfig := cfg \<rparr>, snd (handleWebSocketMessage gw connectionId msg now))"
proof -
  let ?cfg = "apiConfig gw"
  have deny: "\<exists>r. handleRequest gw None req now draw = [r] \<and> status r = 401
           \<and> (body r = ErrorBody ''Unauthorized'' \<or> body r = ErrorBody ''Invalid token'')"
    if on: "auth_enabled ?cfg" and bad: "authorization req \<noteq> Some (''Bearer '' @ auth_secret ?cfg)"
  proof -
    from bad have "authMiddleware ?cfg (authorization req) \<noteq> Next"
      by (simp add: authMiddleware_pass_iff)
    from authMiddleware_deny [OF this] on show ?thesis
      by (auto simp: handleRequest_def authStage_def status_json_def)
  qed
  have pass: "handleRequest gw None req now draw = routeHandler gw (route req) now draw"
    if on: "auth_enabled ?cfg" and ok: "authorization req = Some (''Bearer '' @ auth_secret ?cfg)"
  proof -
    from ok have "authMiddleware ?cfg (authorization req) = Next"
      by (simp only: authMiddleware_pass_iff)
    with on show ?thesis
      by (simp add: handleRequest_def authStage_def)
  qed
  have off: "handleRequest gw None req now draw = routeHandler gw (route req) now draw"
    if "\<not> auth_enabled ?cfg"
    using that by (simp add: handleRequest_def authStage_def)
  have early: "handleRequest gw (Some answered) req now draw = [answered]"
    by (simp add: handleRequest_def)
  from deny pass off early
       onConnection_apiConfig [where gw = gw and cfg = cfg and ws = ws and draw = draw
                                 and now = now]
       handleWebSocketMessage_apiConfig [where gw = gw and cfg = cfg
                                           and connectionId = connectionId and msg = msg
                                           and now = now]
  show ?thesis
    by blast
qed

theorem auth_gate_witness:
  "handleRequest securedGateway None
      \<lparr> authorization = None, route = PostAction \<lparr> action = ''echo'', parameters = None \<rparr> \<rparr> 0 ''0.x''
     = [\<lparr> status = 401, body = ErrorBody ''Unauthorized'' \<rparr>]
   \<and> handleRequest securedGateway None
      \<lparr> authorization = Some ''Bearer wrong'',
        route = PostAction \<lparr> action = ''echo'', parameters = None \<rparr> \<rparr> 0 ''0.x''
     = [\<lparr> status = 401, body = ErrorBody ''Invalid token'' \<rparr>]
   \<and> handleRequest securedGateway None
      \<lparr> authorization = Some ''Bearer secret'',
        route = PostAction \<lparr> action = ''echo'', parameters = None \<rparr> \<rparr> 0 ''0.x''
     = postAction securedGateway \<lparr> action = ''echo'', parameters = None \<rparr>
   \<and> handleRequest bareGateway None
      \<lparr> authorization = None, route = PostAction \<lparr> action = ''echo'', parameters = None \<rparr> \<rparr> 0 ''0.x''
     = postAction bareGateway \<lparr> action = ''echo'', parameters = None \<rparr>"
proof -
  let ?rt = "PostAction \<lparr> action = ''echo'', parameters = None \<rparr>"
  have on: "auth_enabled (apiConfig securedGateway)"
       "auth_secret (apiConfig securedGateway) = ''secret''"
    by (simp_all add: securedGateway_def getDefaultSettings_def)
  have off: "\<not> auth_enabled (apiConfig bareGateway)"
    by (simp add: bareGateway_def getDefaultSettings_def)
  have a: "handleRequest securedGateway None \<lparr> authorization = None, route = ?rt \<rparr> 0 ''0.x''
     = [\<lparr> status = 401, body = ErrorBody ''Unauthorized'' \<rparr>]"
    by (simp add: handleRequest_def authStage_def authMiddleware_def status_json_def on)
  have b: "handleRequest securedGateway None
             \<lparr> authorization = Some ''Bearer wrong'', route = ?rt \<rparr> 0 ''0.x''
     = [\<lparr> status = 401, body = ErrorBody ''Invalid token'' \<rparr>]"
    by (simp add: handleRequest_def authStage_def authMiddleware_def status_json_def on)
  show ?thesis
    using auth_gate [of securedGateway "\<lparr> authorization = Some ''Bearer secret'', route = ?rt \<rparr>"
                        0 "''0.x''"]
          auth_gate [of bareGateway "\<lparr> authorization = None, route = ?rt \<rparr>" 0 "''0.x''"]
          a b on off
    by simp
qed

section \<open>Frames on a WebSocket connection\<close>

lemma connections_demoGateway [simp]: "connections demoGateway ''i'' = Some 1"
  by (simp add: demoGateway_def)

text \<open>
  C7, as claimed, fails: the switch of \<open>handleWebSocketMessage\<close> has no \<open>command\<close> case.
  A \<open>command\<close> frame on a registered connection falls to the default branch and is
  answered with \<open>{error: 'Unknown message type'}\<close>, an object without a \<open>type\<close> property.
\<close>

theorem command_frame_counterexample:
  "handleWebSocketMessage demoGateway ''i'' (Message (Some ''command'') None) 0
     = (demoGateway, [(1, ErrorEnv ''Unknown message type'')])
   \<and> envelope_type (ErrorEnv ''Unknown message type'') \<noteq> Some ''command_response''"
  by (simp add: handleWebSocketMessage_def)

lemma processChatMessage_never_rejects: "processChatMessage gw request now \<noteq> Rejected d err"
  by (simp add: processChatMessage_def split: option.splits promise.splits)

text \<open>
  C7, amended. For every frame received on a registered connection the reply is
  determined by what the frame parses to. Type \<open>ping\<close> is answered with an object of type
  \<open>pong\<close>. Type \<open>chat\<close> is answered, once the chat processing has settled, with an object of
  type \<open>chat_response\<close>, and gets no reply while it never settles; the chat processing
  never throws. A frame that parses to \<open>null\<close> is answered
  \<open>{error: 'Failed to process message'}\<close>. Every other parsed frame, of any other type,
  \<open>command\<close> included, or without a type, is answered \<open>{error: 'Unknown message type'}\<close>.
  Data that does not parse is answered \<open>{error: 'Invalid message format'}\<close> on the socket
  it came in on. The three error objects have no \<open>type\<close> property and no kind.
\<close>

theorem frame_reply_by_type:
  assumes "connections gw connectionId = Some ws"
  shows "handleWebSocketMessage gw connectionId (Message (Some ''ping'') dat) now
           = (gw, [(ws, Pong now)])
       \<and> envelope_type (Pong now) = Some ''pong''
       \<and> (processChatMessage gw \<lparr> message = dat, maxTokens = None, req_sessionId = None \<rparr> now
            = Fulfilled d r \<longrightarrow>
          handleWebSocketMessage gw connectionId (Message (Some ''chat'') dat) now
            = (gw, [(ws, ChatResponseEnv r)])
          \<and> envelope_type (ChatResponseEnv r) = Some ''chat_response'')
       \<and> (processChatMessage gw \<lparr> message = dat, maxTokens = None, req_sessionId = None \<rparr> now
            = Pending \<longrightarrow>
          handleWebSocketMessage gw connectionId (Message (Some ''chat'') dat) now = (gw, []))
       \<and> processChatMessage gw \<lparr> message = dat, maxTokens = None, req_sessionId = None \<rparr> now
            \<noteq> Rejected d err
       \<and> (ty \<noteq> Some ''ping'' \<longrightarrow> ty \<noteq> Some ''chat'' \<longrightarrow>
          handleWebSocketMessage gw connectionId (Message ty dat) now
            = (gw, [(ws, ErrorEnv ''Unknown message type'')]))
       \<and> handleWebSocketMessage gw connectionId NullMessage now
            = (gw, [(ws, ErrorEnv ''Failed to process message'')])
       \<and> onMessage gw connectionId ws None now
            = (gw, [(ws, ErrorEnv ''Invalid message format'')])
       \<and> onMessage gw connectionId ws (Some msg) now
            = handleWebSocketMessage gw connectionId msg now
       \<and> envelope_type (ErrorEnv text) = None
       \<and> envelope_error (ErrorEnv text) = Some text"
  using assms processChatMessage_never_rejects
  by (simp add: handleWebSocketMessage_def onMessage_def)

theorem frame_reply_by_type_witness:
  "handleWebSocketMessage demoGateway ''i'' (Message (Some ''ping'') None) 42
     = (demoGateway, [(1, Pong 42)])
   \<and> handleWebSocketMessage demoGateway ''i'' (Message (Some ''chat'') (Some ''hi'')) 42
     = (demoGateway,
        [(1, ChatResponseEnv \<lparr> response = ''No portal configured for agent'', sessionId = None,
                               timestamp = 42, metadata = None \<rparr>)])
   \<and> handleWebSocketMessage demoGateway ''i'' (Message (Some ''command'') None) 42
     = (demoGateway, [(1, ErrorEnv ''Unknown message type'')])
   \<and> handleWebSocketMessage demoGateway ''i'' (Message None None) 42
     = (demoGateway, [(1, ErrorEnv ''Unknown message type'')])
   \<and> handleWebSocketMessage demoGateway ''i'' NullMessage 42
     = (demoGateway, [(1, ErrorEnv ''Failed to process message'')])
   \<and> onMessage demoGateway ''i'' 1 None 42
     = (demoGateway, [(1, ErrorEnv ''Invalid message format'')])"
proof -
  have chat: "processChatMessage demoGateway
                \<lparr> message = Some ''hi'', maxTokens = None, req_sessionId = None \<rparr> 42
      = Fulfilled 0 \<lparr> response = ''No portal configured for agent'', sessionId = None,
                      timestamp = 42, metadata = None \<rparr>"
    by (simp add: processChatMessage_def demoGateway_def demoAgent_def)
  have ty: "Some ''command'' \<noteq> Some ''ping''" "Some ''command'' \<noteq> Some ''chat''"
           "None \<noteq> Some ''ping''" "None \<noteq> Some ''chat''"
    by simp_all
  show ?thesis
    using frame_reply_by_type
            [where gw = demoGateway and connectionId = "''i''" and ws = 1 and dat = None
               and now = 42 and ty = "Some ''command''"]
          frame_reply_by_type
            [where gw = demoGateway and connectionId = "''i''" and ws = 1 and dat = None
               and now = 42 and ty = None]
          frame_reply_by_type
            [where gw = demoGateway and connectionId = "''i''" and ws = 1
               and dat = "Some ''hi''" and now = 42 and d = 0, OF connections_demoGateway]
          chat ty
    by simp
qed

section \<open>The connection registry\<close>

lemma remove_absent:
  assumes "connections gw connectionId = None"
  shows "gw\<lparr> connections := (connections gw)(connectionId := None) \<rparr> = gw"
proof -
  have "(connections gw)(connectionId := None) = connections gw"
    using assms by (rule fun_upd_idem)
  then show ?thesis
    by simp
qed

lemma connections_onClose [simp]:
  "connections (onClose gw connectionId) c = (if c = connectionId then None else connections gw c)"
  by (simp add: onClose_def)

text \<open>
  C8. A reply addressed to a connection id that is not in the registry, because it was
  removed or was never registered, is dropped: \<open>handleWebSocketMessage\<close> returns without
  sending and leaves the state as it was. Removing an id (on close or on error) that is
  not in the registry leaves the state as it was, so removing twice is the same as
  removing once.
\<close>

theorem absent_connection_noop:
  "handleWebSocketMessage (onClose gw connectionId) connectionId msg now
     = (onClose gw connectionId, [])
   \<and> (connections gw connectionId = None \<longrightarrow>
        handleWebSocketMessage gw connectionId msg now = (gw, [])
        \<and> onClose gw connectionId = gw \<and> onError gw connectionId = gw)
   \<and> onClose (onClose gw connectionId) connectionId = onClose gw connectionId
   \<and> onError (onClose gw connectionId) connectionId = onClose gw connectionId
   \<and> onClose (onError gw connectionId) connectionId = onError gw connectionId"
  by (simp add: handleWebSocketMessage_def onClose_def onError_def remove_absent)

theorem absent_connection_noop_witness:
  "handleWebSocketMessage bareGateway ''gone'' (Message (Some ''ping'') None) 3 = (bareGateway, [])
   \<and> onClose bareGateway ''gone'' = bareGateway
   \<and> handleWebSocketMessage (onClose demoGateway ''i'') ''i'' (Message (Some ''ping'') None) 3
       = (onClose demoGateway ''i'', [])"
proof -
  have "connections bareGateway ''gone'' = None"
    by (simp add: bareGateway_def)
  then show ?thesis
    using absent_connection_noop [of bareGateway "''gone''" "Message (Some ''ping'') None" 3]
          absent_connection_noop [of demoGateway "''i''" "Message (Some ''ping'') None" 3]
    by simp
qed

lemma connections_onConnection:
  "connections (fst (onConnection gw ws draw now)) c
     = (if c = generateConnectionId draw then Some ws else connections gw c)"
  by (simp add: onConnection_def Let_def)

lemma connectAll_elsewhere:
  "c \<notin> set (drawnIds evs) \<Longrightarrow> connections (connectAll gw evs) c = connections gw c"
proof (induction evs arbitrary: gw)
  case Nil
  then show ?case by simp
next
  case (Cons ev rest)
  obtain ws draw now where ev: "ev = (ws, draw, now)"
    by (cases ev) auto
  from Cons.prems ev have "c \<noteq> generateConnectionId draw" "c \<notin> set (drawnIds rest)"
    by (auto simp: drawnIds_def)
  with Cons.IH [of "fst (onConnection gw ws draw now)"] ev show ?case
    by (simp add: connections_onConnection)
qed

lemma connectAll_distinct:
  "distinct (drawnIds evs) \<Longrightarrow> (ws, draw, now) \<in> set evs \<Longrightarrow>
   connections (connectAll gw evs) (generateConnectionId draw) = Some ws"
proof (induction evs arbitrary: gw)
  case Nil
  then show ?case by simp
next
  case (Cons ev rest)
  obtain ws' draw' now' where ev: "ev = (ws', draw', now')"
    by (cases ev) auto
  let ?gw' = "fst (onConnection gw ws' draw' now')"
  from Cons.prems(1) ev have fresh: "generateConnectionId draw' \<notin> set (drawnIds rest)"
    and rest: "distinct (drawnIds rest)"
    by (auto simp: drawnIds_def)
  show ?case
  proof (cases "(ws, draw, now) \<in> set rest")
    case True
    with Cons.IH [OF rest, of ?gw'] ev show ?thesis
      by simp
  next
    case False
    with Cons.prems(2) ev have same: "ws = ws'" "draw = draw'"
      by auto
    with fresh connectAll_elsewhere [of "generateConnectionId draw'" rest ?gw'] ev show ?thesis
      by (simp add: connections_onConnection)
  qed
qed

text \<open>
  C9, as claimed, fails: the id is cut from a random draw and nothing compares it with the
  registry or with ids given out before. Two connections whose draws render alike get the
  same id, the second registration replaces the first socket in the registry, and an id
  removed on close is given again to another socket by a later equal draw.
\<close>

theorem connection_id_counterexample:
  "snd (onConnection bareGateway 1 ''0.i'' 0) = [(1, Welcome ''i'' 0)]
   \<and> snd (onConnection (fst (onConnection bareGateway 1 ''0.i'' 0)) 2 ''0.i'' 7)
       = [(2, Welcome ''i'' 7)]
   \<and> connections (fst (onConnection (fst (onConnection bareGateway 1 ''0.i'' 0)) 2 ''0.i'' 7))
        ''i'' = Some 2
   \<and> snd (onConnection (onClose (fst (onConnection bareGateway 1 ''0.i'' 0)) ''i'')
            2 ''0.i'' 7)
       = [(2, Welcome ''i'' 7)]"
  by (simp add: onConnection_def Let_def generateConnectionId_def onClose_def bareGateway_def)

text \<open>
  C9, amended. A connection is registered under the id cut from its random draw
  (characters 2 to 14 of the draw's base-36 rendering) and is told that id in its welcome
  message; the registry then maps the id to the new socket, whatever it held before.
  Ids are distinct only as far as the draws are: in a run of connections whose drawn ids
  are pairwise distinct, every socket is found in the registry under its own id.
\<close>

theorem connection_ids_follow_draws:
  "snd (onConnection gw ws draw now) = [(ws, Welcome (generateConnectionId draw) now)]
   \<and> generateConnectionId draw = take 13 (drop 2 draw)
   \<and> connections (fst (onConnection gw ws draw now)) (generateConnectionId draw) = Some ws
   \<and> (distinct (drawnIds evs) \<longrightarrow>
        (\<forall>(ws', draw', now') \<in> set evs.
           connections (connectAll gw evs) (generateConnectionId draw') = Some ws'))"
  using connectAll_distinct [of evs _ _ _ gw]
  by (auto simp: onConnection_def Let_def generateConnectionId_def)

theorem connection_ids_follow_draws_witness:
  "connections (connectAll bareGateway [(1, ''0.i'', 0), (2, ''0.9'', 7)]) ''i'' = Some 1
   \<and> connections (connectAll bareGateway [(1, ''0.i'', 0), (2, ''0.9'', 7)]) ''9'' = Some 2"
proof -
  have d: "distinct (drawnIds [(1, ''0.i'', 0), (2, ''0.9'', 7)])"
    by (simp add: drawnIds_def generateConnectionId_def)
  have ids: "generateConnectionId ''0.i'' = ''i''" "generateConnectionId ''0.9'' = ''9''"
    by (simp_all add: generateConnectionId_def)
  show ?thesis
    using connection_ids_follow_draws
            [of bareGateway 0 "''''" 0 "[(1, ''0.i'', 0), (2, ''0.9'', 7)]"] d ids
    by simp
qed

section \<open>Chat without an agent or a portal\<close>

text \<open>
  C10. A chat command with a non-empty message, arriving while no agent is set or while
  the agent has no portal, is answered with an ordinary chat response whose text is
  \<open>Agent not initialized\<close> or \<open>No portal configured for agent\<close>: \<open>POST /chat\<close> sends it as a
  status 200 body, and a \<open>chat\<close> frame gets it in an object of type \<open>chat_response\<close> on the
  socket registered for the connection; nothing else is sent.
\<close>

theorem chat_not_ready_is_plain_response:
  assumes "agent gw = None \<or> (\<exists>a. agent gw = Some a \<and> portal a = None)"
      and "message request = Some m" and "m \<noteq> []"
      and "r = \<lparr> response = (if agent gw = None then ''Agent not initialized''
                              else ''No portal configured for agent''),
                 sessionId = None, timestamp = now, metadata = None \<rparr>"
  shows "postChat gw request now = [\<lparr> status = 200, body = ChatBody r \<rparr>]
       \<and> handleWebSocketMessage gw connectionId (Message (Some ''chat'') dat) now
           = (gw, case connections gw connectionId of
                    None \<Rightarrow> []
                  | Some ws \<Rightarrow> [(ws, ChatResponseEnv r)])
       \<and> envelope_type (ChatResponseEnv r) = Some ''chat_response''
       \<and> envelope_error (ChatResponseEnv r) = None"
proof -
  have chat: "processChatMessage gw req now = Fulfilled 0 r" for req
    using assms(1,4) by (auto simp: processChatMessage_def)
  from chat [of request] assms(2,3)
  have "postChat gw request now = [\<lparr> status = 200, body = ChatBody r \<rparr>]"
    by (simp add: postChat_def json_def)
  moreover from chat
  have "handleWebSocketMessage gw connectionId (Message (Some ''chat'') dat) now
           = (gw, case connections gw connectionId of
                    None \<Rightarrow> []
                  | Some ws \<Rightarrow> [(ws, ChatResponseEnv r)])"
    by (simp add: handleWebSocketMessage_def split: option.splits)
  ultimately show ?thesis
    by simp
qed

theorem chat_not_ready_is_plain_response_witness:
  "postChat bareGateway \<lparr> message = Some ''hi'', maxTokens = None, req_sessionId = None \<rparr> 9
     = [\<lparr> status = 200,
          body = ChatBody \<lparr> response = ''Agent not initialized'', sessionId = None,
                            timestamp = 9, metadata = None \<rparr> \<rparr>]
   \<and> handleWebSocketMessage demoGateway ''i'' (Message (Some ''chat'') (Some ''hi'')) 9
     = (demoGateway,
        [(1, ChatResponseEnv \<lparr> response = ''No portal configured for agent'', sessionId = None,
                               timestamp = 9, metadata = None \<rparr>)])"
proof -
  let ?req = "\<lparr> message = Some ''hi'', maxTokens = None, req_sessionId = None \<rparr>"
  have bare: "agent bareGateway = None"
    by (simp add: bareGateway_def)
  have demo: "agent demoGateway = None \<or> (\<exists>a. agent demoGateway = Some a \<and> portal a = None)"
    by (simp add: demoAgent_def)
  have msg: "message ?req = Some ''hi''" "''hi'' \<noteq> []"
    by simp_all
  from bare have bare': "agent bareGateway = None \<or> (\<exists>a. agent bareGateway = Some a \<and> portal a = None)"
    by simp
  show ?thesis
    using chat_not_ready_is_plain_response [OF bare' msg refl, of 9 "''i''" None]
          chat_not_ready_is_plain_response [OF demo msg refl, of 9 "''i''" "Some ''hi''"]
          bare
    by simp
qed

section \<open>One reply per command\<close>

lemma actionLoop_settles:
  "\<forall>ext \<in> set exts. \<forall>n act ps. actions ext n = Some act \<longrightarrow> execute act ps \<noteq> Pending \<Longrightarrow>
   actionLoop exts request \<noteq> Pending"
proof (induction exts)
  case Nil
  then show ?case by simp
next
  case (Cons ext rest)
  show ?case
  proof (cases "actions ext (action request)")
    case None
    with Cons show ?thesis by simp
  next
    case (Some act)
    with Cons.prems have "execute act (case parameters request of None \<Rightarrow> [] | Some ps \<Rightarrow> ps) \<noteq> Pending"
      by simp
    with Some show ?thesis
      by (simp split: promise.splits)
  qed
qed

lemma executeAction_settles: "collaboratorsSettle gw \<Longrightarrow> executeAction gw request \<noteq> Pending"
  by (auto simp: collaboratorsSettle_def executeAction_def actionLoop_settles split: option.splits)

lemma processChatMessage_settles:
  "collaboratorsSettle gw \<Longrightarrow> processChatMessage gw request now \<noteq> Pending"
  by (auto simp: collaboratorsSettle_def processChatMessage_def split: option.splits promise.splits)

lemma getMemories_settles: "collaboratorsSettle gw \<Longrightarrow> getMemories gw \<noteq> Pending"
  by (auto simp: collaboratorsSettle_def getMemories_def split: option.splits promise.splits)

lemma storeMemory_settles:
  "collaboratorsSettle gw \<Longrightarrow> storeMemory gw request now draw \<noteq> Pending"
  by (auto simp: collaboratorsSettle_def storeMemory_def Let_def split: option.splits promise.splits)

lemma routeHandler_at_most_one: "length (routeHandler gw rt now draw) \<le> 1"
  by (cases rt)
     (simp_all add: postChat_def getMemory_def postMemory_def postAction_def split: promise.splits)

lemma routeHandler_exactly_one:
  assumes "collaboratorsSettle gw"
  shows "length (routeHandler gw rt now draw) = 1"
proof (cases rt)
  case (PostChat r)
  with processChatMessage_settles [OF assms, of r now] show ?thesis
    by (simp add: postChat_def split: promise.splits)
next
  case GetMemory
  with getMemories_settles [OF assms] show ?thesis
    by (simp add: getMemory_def split: promise.splits)
next
  case (PostMemory r)
  with storeMemory_settles [OF assms, of r now draw] show ?thesis
    by (simp add: postMemory_def split: promise.splits)
next
  case (PostAction r)
  with executeAction_settles [OF assms, of r] show ?thesis
    by (simp add: postAction_def split: promise.splits)
qed

lemma handleRequest_at_most_one: "length (handleRequest gw earlier req now draw) \<le> 1"
  using routeHandler_at_most_one [of gw "route req" now draw]
  by (simp add: handleRequest_def split: option.splits MiddlewareResult.splits)

lemma handleRequest_exactly_one:
  "collaboratorsSettle gw \<Longrightarrow> length (handleRequest gw earlier req now draw) = 1"
  using routeHandler_exactly_one [of gw "route req" now draw]
  by (simp add: handleRequest_def split: option.splits MiddlewareResult.splits)

lemma frame_at_most_one: "length (snd (handleWebSocketMessage gw connectionId msg now)) \<le> 1"
  by (simp add: handleWebSocketMessage_def
           split: option.splits WebSocketMessage.splits promise.splits)

lemma frame_exactly_one:
  assumes "collaboratorsSettle gw" and "connections gw connectionId = Some ws"
  shows "\<exists>env. handleWebSocketMessage gw connectionId msg now = (gw, [(ws, env)])"
proof (cases msg)
  case NullMessage
  with assms(2) show ?thesis
    by (simp add: handleWebSocketMessage_def)
next
  case (Message ty dat)
  with assms(2)
       processChatMessage_settles
         [OF assms(1), of "\<lparr> message = dat, maxTokens = None, req_sessionId = None \<rparr>" now]
  show ?thesis
    by (simp add: handleWebSocketMessage_def split: promise.splits)
qed

text \<open>
  C1, as claimed, fails. A frame whose connection id is not in the registry gets no reply
  (the guard at the head of \<open>handleWebSocketMessage\<close> returns). An \<open>/action\<close> request
  whose handler never settles gets no response either, since nothing bounds the wait. And
  a reply goes to the socket the registry holds for the id: after a second connection has
  drawn the same id, a ping from the first socket is answered on the second.
\<close>

theorem one_reply_counterexample:
  "handleWebSocketMessage bareGateway ''gone'' (Message (Some ''ping'') None) 0
     = (bareGateway, [])
   \<and> postAction demoGateway \<lparr> action = ''stuck'', parameters = None \<rparr> = []
   \<and> onMessage (fst (onConnection (fst (onConnection bareGateway 1 ''0.i'' 0)) 2 ''0.i'' 7))
        ''i'' 1 (Some (Message (Some ''ping'') None)) 9
     = (fst (onConnection (fst (onConnection bareGateway 1 ''0.i'' 0)) 2 ''0.i'' 7),
        [(2, Pong 9)])"
  by (simp add: handleWebSocketMessage_def onMessage_def onConnection_def Let_def
        generateConnectionId_def bareGateway_def postAction_def executeAction_def
        demoGateway_def demoAgent_def toolsExtension_def stuckAction_def)

text \<open>
  C1, amended. No inbound command ever gets more than one reply. Provided the calls that
  the gateway awaits on the agent's collaborators settle (by returning or by throwing),
  every HTTP request, answered by the middleware or by the \<open>/action\<close>, \<open>/chat\<close> or
  \<open>/memory\<close> route, gets exactly one response, and every frame whose connection id is in
  the registry gets exactly one reply, sent to the socket registered under that id. A
  frame whose connection id is not in the registry gets no reply.
\<close>

theorem one_reply_per_command:
  "length (handleRequest gw earlier req now draw) \<le> 1
   \<and> length (snd (handleWebSocketMessage gw connectionId msg now)) \<le> 1
   \<and> (collaboratorsSettle gw \<longrightarrow>
        length (handleRequest gw earlier req now draw) = 1
        \<and> length (routeHandler gw (route req) now draw) = 1
        \<and> (\<forall>ws. connections gw connectionId = Some ws \<longrightarrow>
              (\<exists>env. handleWebSocketMessage gw connectionId msg now = (gw, [(ws, env)]))))
   \<and> (connections gw connectionId = None \<longrightarrow>
        handleWebSocketMessage gw connectionId msg now = (gw, []))"
proof -
  have "handleWebSocketMessage gw connectionId msg now = (gw, [])"
    if "connections gw connectionId = None"
    using that by (simp add: handleWebSocketMessage_def)
  then show ?thesis
    using handleRequest_at_most_one [of gw earlier req now draw]
          frame_at_most_one [of gw connectionId msg now]
          handleRequest_exactly_one [of gw earlier req now draw]
          routeHandler_exactly_one [of gw "route req" now draw]
          frame_exactly_one [of gw connectionId _ msg now]
    by blast
qed

lemma steadyGateway_settles: "collaboratorsSettle steadyGateway"
  by (auto simp: collaboratorsSettle_def steadyGateway_def steadyExtension_def quietMemory_def
        echoAction_def failingAction_def split: if_splits)

theorem one_reply_per_command_witness:
  "length (handleRequest steadyGateway None
             \<lparr> authorization = None,
               route = PostAction \<lparr> action = ''fail'', parameters = None \<rparr> \<rparr> 0 ''0.x'') = 1
   \<and> (\<exists>env. handleWebSocketMessage steadyGateway ''i'' (Message (Some ''chat'') (Some ''hi'')) 0
              = (steadyGateway, [(1, env)]))
   \<and> handleWebSocketMessage steadyGateway ''gone'' (Message (Some ''chat'') (Some ''hi'')) 0
       = (steadyGateway, [])"
proof -
  have reg: "connections steadyGateway ''i'' = Some 1" "connections steadyGateway ''gone'' = None"
    by (simp_all add: steadyGateway_def)
  show ?thesis
    using one_reply_per_command
            [of steadyGateway None
                "\<lparr> authorization = None,
                   route = PostAction \<lparr> action = ''fail'', parameters = None \<rparr> \<rparr>" 0 "''0.x''"
                "''i''" "Message (Some ''chat'') (Some ''hi'')"]
          one_reply_per_command
            [of steadyGateway None
                "\<lparr> authorization = None,
                   route = PostAction \<lparr> action = ''fail'', parameters = None \<rparr> \<rparr>" 0 "''0.x''"
                "''gone''" "Message (Some ''chat'') (Some ''hi'')"]
          steadyGateway_settles reg
    by simp
qed

section \<open>The fixed-window counter\<close>

lemma admit_window:
  "fst (rateLimitAdmit cfg windows clientKey now) clientKey
     = Some (case windows clientKey of
               None \<Rightarrow> freshWindow now
             | Some w \<Rightarrow>
                 if now \<ge> windowStart w + rateLimit_windowMs cfg
                 then freshWindow now
                 else \<lparr> windowStart = windowStart w, count = count w + 1 \<rparr>)"
  by (simp add: rateLimitAdmit_def Let_def split: option.splits)

lemma admit_elsewhere:
  "k \<noteq> clientKey \<Longrightarrow> fst (rateLimitAdmit cfg windows clientKey now) k = windows k"
  by (simp add: rateLimitAdmit_def Let_def)

lemma admit_decision:
  "snd (rateLimitAdmit cfg windows clientKey now)
     = (if \<exists>w. fst (rateLimitAdmit cfg windows clientKey now) clientKey = Some w
              \<and> count w > rateLimit_maxRequests cfg
        then Deny RATE_LIMITED else Allow)"
  by (simp add: rateLimitAdmit_def Let_def)

lemma admit_keeps_positive:
  assumes "\<forall>k w. windows k = Some w \<longrightarrow> 1 \<le> count w"
      and "fst (rateLimitAdmit cfg windows clientKey now) k = Some w"
  shows "1 \<le> count w"
proof (cases "k = clientKey")
  case True
  with assms(2) admit_window [of cfg windows clientKey now]
  have w: "w = (case windows clientKey of
                  None \<Rightarrow> freshWindow now
                | Some w0 \<Rightarrow>
                    if now \<ge> windowStart w0 + rateLimit_windowMs cfg
                    then freshWindow now
                    else \<lparr> windowStart = windowStart w0, count = count w0 + 1 \<rparr>)"
    by simp
  show ?thesis
  proof (cases "windows clientKey")
    case None
    with w show ?thesis by (simp add: freshWindow_def)
  next
    case (Some w0)
    with assms(1) have "1 \<le> count w0" by blast
    with w Some show ?thesis by (simp add: freshWindow_def)
  qed
next
  case False
  with assms show ?thesis
    by (simp add: admit_elsewhere)
qed

lemma admitAll_keeps_positive:
  "\<forall>k w. windows k = Some w \<longrightarrow> 1 \<le> count w \<Longrightarrow>
   fst (admitAll cfg windows calls) k = Some w \<Longrightarrow> 1 \<le> count w"
proof (induction calls arbitrary: windows)
  case Nil
  then show ?case by simp
next
  case (Cons call calls)
  obtain clientKey now where call: "call = (clientKey, now)"
    by (cases call) auto
  let ?ws = "fst (rateLimitAdmit cfg windows clientKey now)"
  have inv: "\<forall>k w. ?ws k = Some w \<longrightarrow> 1 \<le> count w"
    using admit_keeps_positive [OF Cons.prems(1)] by blast
  from Cons.prems(2) call have "fst (admitAll cfg ?ws calls) k = Some w"
    by (simp add: case_prod_beta)
  from Cons.IH [OF inv this] show ?case .
qed

text \<open>
  C5. The limiter keeps one fixed window per client key. A call for a key with no window,
  or arriving when \<open>now \<ge> windowStart + windowSizeMs\<close>, starts a fresh window with count 1;
  any other call keeps \<open>windowStart\<close> and adds one to the count, also when the call is over
  the limit, so an over-limit call never resets the window. The call is denied with
  \<open>RATE_LIMITED\<close> exactly when the count after the update exceeds \<open>maxRequests\<close>. The windows
  of other keys are untouched, and after any sequence of calls from the empty state every
  count is at least 1, hence never negative.
\<close>

theorem fixed_window_rate_limiter:
  "(windows clientKey = None
      \<or> (\<exists>w. windows clientKey = Some w \<and> now \<ge> windowStart w + rateLimit_windowMs cfg) \<longrightarrow>
    fst (rateLimitAdmit cfg windows clientKey now) clientKey
      = Some \<lparr> windowStart = now, count = 1 \<rparr>)
   \<and> (\<forall>w. windows clientKey = Some w \<longrightarrow> now < windowStart w + rateLimit_windowMs cfg \<longrightarrow>
         fst (rateLimitAdmit cfg windows clientKey now) clientKey
           = Some \<lparr> windowStart = windowStart w, count = count w + 1 \<rparr>
         \<and> (snd (rateLimitAdmit cfg windows clientKey now) = Deny RATE_LIMITED
              \<longleftrightarrow> count w + 1 > rateLimit_maxRequests cfg))
   \<and> (snd (rateLimitAdmit cfg windows clientKey now) = Deny RATE_LIMITED
        \<longleftrightarrow> (\<exists>w. fst (rateLimitAdmit cfg windows clientKey now) clientKey = Some w
                 \<and> count w > rateLimit_maxRequests cfg))
   \<and> (snd (rateLimitAdmit cfg windows clientKey now) = Allow
        \<longleftrightarrow> (\<exists>w. fst (rateLimitAdmit cfg windows clientKey now) clientKey = Some w
                 \<and> count w \<le> rateLimit_maxRequests cfg))
   \<and> (\<forall>k. k \<noteq> clientKey \<longrightarrow> fst (rateLimitAdmit cfg windows clientKey now) k = windows k)
   \<and> (\<forall>k w. fst (admitAll cfg Map.empty calls) k = Some w \<longrightarrow> 0 \<le> count w \<and> 1 \<le> count w)"
proof -
  have fresh: "fst (rateLimitAdmit cfg windows clientKey now) clientKey
      = Some \<lparr> windowStart = now, count = 1 \<rparr>"
    if "windows clientKey = None
      \<or> (\<exists>w. windows clientKey = Some w \<and> now \<ge> windowStart w + rateLimit_windowMs cfg)"
    using that by (auto simp: admit_window freshWindow_def)
  have step: "fst (rateLimitAdmit cfg windows clientKey now) clientKey
           = Some \<lparr> windowStart = windowStart w, count = count w + 1 \<rparr>
         \<and> (snd (rateLimitAdmit cfg windows clientKey now) = Deny RATE_LIMITED
              \<longleftrightarrow> count w + 1 > rateLimit_maxRequests cfg)"
    if "windows clientKey = Some w" "now < windowStart w + rateLimit_windowMs cfg" for w
    using that by (simp add: rateLimitAdmit_def Let_def)
  have deny: "snd (rateLimitAdmit cfg windows clientKey now) = Deny RATE_LIMITED
        \<longleftrightarrow> (\<exists>w. fst (rateLimitAdmit cfg windows clientKey now) clientKey = Some w
                 \<and> count w > rateLimit_maxRequests cfg)"
    by (subst admit_decision) simp
  have allow: "snd (rateLimitAdmit cfg windows clientKey now) = Allow
        \<longleftrightarrow> (\<exists>w. fst (rateLimitAdmit cfg windows clientKey now) clientKey = Some w
                 \<and> count w \<le> rateLimit_maxRequests cfg)"
    by (subst admit_decision) (auto simp: admit_window)
  have pos: "0 \<le> count w \<and> 1 \<le> count w"
    if "fst (admitAll cfg Map.empty calls) k = Some w" for k w
    using admitAll_keeps_positive [of Map.empty cfg calls k w] that by simp
  from fresh step deny allow pos admit_elsewhere [of _ clientKey cfg windows now]
  show ?thesis
    by blast
qed

theorem fixed_window_rate_limiter_witness:
  "snd (admitAll threePerSecond Map.empty
          [(''k'', 0), (''k'', 10), (''k'', 20), (''k'', 30), (''k'', 999), (''k'', 1000)])
     = [Allow, Allow, Allow, Deny RATE_LIMITED, Deny RATE_LIMITED, Allow]
   \<and> fst (rateLimitAdmit threePerSecond [''k'' \<mapsto> \<lparr> windowStart = 0, count = 4 \<rparr>] ''k'' 999) ''k''
       = Some \<lparr> windowStart = 0, count = 5 \<rparr>
   \<and> snd (rateLimitAdmit threePerSecond [''k'' \<mapsto> \<lparr> windowStart = 0, count = 4 \<rparr>] ''k'' 999)
       = Deny RATE_LIMITED
   \<and> fst (rateLimitAdmit threePerSecond [''k'' \<mapsto> \<lparr> windowStart = 0, count = 5 \<rparr>] ''k'' 1000) ''k''
       = Some \<lparr> windowStart = 1000, count = 1 \<rparr>"
proof -
  have cfg: "rateLimit_windowMs threePerSecond = 1000" "rateLimit_maxRequests threePerSecond = 3"
    by (simp_all add: threePerSecond_def)
  have run: "snd (admitAll threePerSecond Map.empty
          [(''k'', 0), (''k'', 10), (''k'', 20), (''k'', 30), (''k'', 999), (''k'', 1000)])
     = [Allow, Allow, Allow, Deny RATE_LIMITED, Deny RATE_LIMITED, Allow]"
    by (simp add: rateLimitAdmit_def Let_def freshWindow_def cfg)
  show ?thesis
    using fixed_window_rate_limiter
            [where windows = "[''k'' \<mapsto> \<lparr> windowStart = 0, count = 4 \<rparr>]"
               and clientKey = "''k''" and now = 999 and cfg = threePerSecond and calls = "[]"]
          fixed_window_rate_limiter
            [where windows = "[''k'' \<mapsto> \<lparr> windowStart = 0, count = 5 \<rparr>]"
               and clientKey = "''k''" and now = 1000 and cfg = threePerSecond and calls = "[]"]
          run cfg
    by simp
qed

end
